theory Spec2Isabelle
  imports Main "HOL-Library.AList" "HOL-Library.Char_ord" "HOL-Library.List_Lexorder"
    "HOL-Library.Word"
begin

section \<open>Python values, errors and effects\<close>

text \<open>
  The module under study is \<^verbatim>\<open>pytorch_lightning/core/optimizer.py\<close>: the class
  \<^verbatim>\<open>LightningOptimizer\<close> that wraps a user optimizer. Python objects are modelled
  by the datatype \<open>py_value\<close>. A float is the 64 bits of its IEEE 754 encoding
  (\<open>py_float\<close>), on which the module computes nothing itself; the two builtin
  operations the module applies to floats (\<^verbatim>\<open>round(x, n)\<close> and \<^verbatim>\<open>str\<close>) are
  parameters, collected in the record \<open>builtins\<close>. A function object (an instance of
  \<^verbatim>\<open>types.FunctionType\<close>) is \<open>PyFunction\<close>; the module-level function
  \<^verbatim>\<open>do_nothing_closure\<close> is one of them. Every other object (a bound method, a
  callable instance, ...) is \<open>PyObject\<close>.
\<close>

type_synonym py_float = "64 word"

datatype fn = do_nothing_closure | UserFunction nat

datatype py_value =
    PyNone
  | PyBool bool
  | PyInt int
  | PyFloat py_float
  | PyStr string
  | PyFunction fn
  | PyObject nat
  | PyTuple "py_value list"
  | PyList "py_value list"
  | PyDict "(string \<times> py_value) list"

record builtins =
  float_round :: "py_float \<Rightarrow> int \<Rightarrow> py_float"
  float_str :: "py_float \<Rightarrow> string"

text \<open>
  Exceptions are values. \<open>Raised n\<close> is an exception number \<open>n\<close> raised by an external
  collaborator (the closure, the wrapped optimizer, an accelerator or precision backend);
  the module never catches it.
\<close>

datatype py_error =
    MisconfigurationException string
  | AssertionError
  | AttributeError
  | ReferenceError
  | ZeroDivisionError
  | TypeError
  | KeyError
  | NameError
  | Raised nat

text \<open>\<^verbatim>\<open>isinstance(v, int)\<close>: \<^verbatim>\<open>bool\<close> is a subclass of \<^verbatim>\<open>int\<close>.\<close>

fun isinstance_int :: "py_value \<Rightarrow> bool" where
  "isinstance_int (PyInt n) = True"
| "isinstance_int (PyBool b) = True"
| "isinstance_int v = False"

text \<open>The integer an \<^verbatim>\<open>int\<close> instance stands for in arithmetic and comparisons.\<close>

fun int_value :: "py_value \<Rightarrow> int" where
  "int_value (PyInt n) = n"
| "int_value (PyBool b) = (if b then 1 else 0)"
| "int_value v = 0"

text \<open>\<^verbatim>\<open>str(n)\<close> for an integer: decimal digits, a minus sign when negative.\<close>

fun digits_of_nat :: "nat \<Rightarrow> string" where
  "digits_of_nat n =
     (if n < 10 then [''0123456789'' ! n]
      else digits_of_nat (n div 10) @ [''0123456789'' ! (n mod 10)])"

declare digits_of_nat.simps [simp del]

definition str_int :: "int \<Rightarrow> string" where
  "str_int i = (if i < 0 then CHR ''-'' # digits_of_nat (nat (- i)) else digits_of_nat (nat i))"

text \<open>\<^verbatim>\<open>f'{v}'\<close> for an instance of \<^verbatim>\<open>int\<close>: a \<^verbatim>\<open>bool\<close> prints as its name.\<close>

definition format_int_instance :: "py_value \<Rightarrow> string" where
  "format_int_instance v =
     (case v of
        PyBool b \<Rightarrow> (if b then ''True'' else ''False'')
      | _ \<Rightarrow> str_int (int_value v))"

section \<open>The wrapped optimizer and the trainer\<close>

text \<open>
  The wrapped optimizer: its class name, its instance \<^verbatim>\<open>__dict__\<close> (an insertion-ordered
  dictionary, here an association list with distinct keys) and the attributes found on its
  class. \<^verbatim>\<open>getattr\<close> looks in the instance dictionary first.
\<close>

record optimizer =
  class_name :: string
  dict :: "(string \<times> py_value) list"
  class_attrs :: "(string \<times> py_value) list"

definition getattr :: "optimizer \<Rightarrow> string \<Rightarrow> py_value option" where
  "getattr opt name =
     (case map_of (dict opt) name of
        Some v \<Rightarrow> Some v
      | None \<Rightarrow> map_of (class_attrs opt) name)"

definition hasattr :: "optimizer \<Rightarrow> string \<Rightarrow> bool" where
  "hasattr opt name = (getattr opt name \<noteq> None)"

text \<open>
  The trainer (the execution context), as far as the module reads it:
  \<open>num_training_batches_reached\<close> is what
  \<^verbatim>\<open>trainer.train_loop._num_training_batches_reached()\<close> returns. The wrapper holds a
  weak proxy to the trainer, so the trainer lives in a heap and is read at call time.
\<close>

datatype amp_type = NATIVE | APEX

record trainer =
  accumulate_grad_batches :: int
  batch_idx :: int
  num_training_batches_reached :: bool
  on_tpu :: bool
  amp_backend :: "amp_type option"

type_synonym trainer_ref = nat

type_synonym heap = "trainer_ref \<Rightarrow> trainer option"

section \<open>LightningOptimizer\<close>

text \<open>
  The wrapper's state. \<open>self_dict\<close> is the \<^verbatim>\<open>__dict__\<close> mirrored from the optimizer;
  the private attributes set by \<^verbatim>\<open>__init__\<close> are fields of their own.
  \<open>self_trainer\<close> is \<open>None\<close> until \<^verbatim>\<open>_on_trainer_init\<close> stores the proxy.
\<close>

record lightning_optimizer =
  self_dict :: "(string \<times> py_value) list"
  self_trainer :: "trainer_ref option"
  self_optimizer :: optimizer
  self_accumulate_grad_batches :: "int option"
  self_use_accumulate_grad_batches_from_trainer :: bool

text \<open>Lines 69-72: copy every entry of the optimizer's dictionary but \<^verbatim>\<open>step\<close>.\<close>

fun copy_dict :: "(string \<times> py_value) list \<Rightarrow> (string \<times> py_value) list
    \<Rightarrow> (string \<times> py_value) list" where
  "copy_dict [] optim_dict = optim_dict"
| "copy_dict ((k, v) # items) optim_dict =
     copy_dict items (if k \<noteq> ''step'' then AList.update k v optim_dict else optim_dict)"

text \<open>Lines 75-78: the Horovod hooks, copied when the optimizer has \<^verbatim>\<open>skip_synchronize\<close>.\<close>

definition copy_horovod :: "optimizer \<Rightarrow> (string \<times> py_value) list
    \<Rightarrow> py_error + (string \<times> py_value) list" where
  "copy_horovod opt d =
     (if hasattr opt ''skip_synchronize'' then
        (case getattr opt ''skip_synchronize'' of
           None \<Rightarrow> Inl AttributeError
         | Some skip \<Rightarrow>
             (case getattr opt ''synchronize'' of
                None \<Rightarrow> Inl AttributeError
              | Some sync \<Rightarrow>
                  Inr (AList.update ''synchronize'' sync
                        (AList.update ''skip_synchronize'' skip d))))
      else Inr d)"

text \<open>
  \<^verbatim>\<open>__init__\<close> (lines 60-83). The stored count is \<open>None\<close> or the integer the argument
  stands for (\<^verbatim>\<open>True\<close> is stored as the integer 1 it behaves as).
\<close>

definition init :: "optimizer \<Rightarrow> py_value \<Rightarrow> py_error + lightning_optimizer" where
  "init opt accumulate_grad_batches_arg =
     (if \<not> (accumulate_grad_batches_arg = PyNone \<or> isinstance_int accumulate_grad_batches_arg)
      then Inl AssertionError
      else if isinstance_int accumulate_grad_batches_arg
              \<and> int_value accumulate_grad_batches_arg < 1
      then Inl (MisconfigurationException
                 (''accumulate_grad_batches parameters ''
                  @ format_int_instance accumulate_grad_batches_arg
                  @ '' should be >= 1''))
      else
        (case copy_horovod opt (copy_dict (dict opt) []) of
           Inl e \<Rightarrow> Inl e
         | Inr d \<Rightarrow>
             Inr \<lparr> self_dict = d,
                   self_trainer = None,
                   self_optimizer = opt,
                   self_accumulate_grad_batches =
                     (if accumulate_grad_batches_arg = PyNone then None
                      else Some (int_value accumulate_grad_batches_arg)),
                   self_use_accumulate_grad_batches_from_trainer =
                     (accumulate_grad_batches_arg = PyNone) \<rparr>))"

text \<open>\<^verbatim>\<open>_on_trainer_init\<close> (lines 85-86).\<close>

definition on_trainer_init :: "lightning_optimizer \<Rightarrow> trainer_ref \<Rightarrow> lightning_optimizer" where
  "on_trainer_init self r = self\<lparr>self_trainer := Some r\<rparr>"

text \<open>
  Reading an attribute of \<^verbatim>\<open>self._trainer\<close>: \<^verbatim>\<open>AttributeError\<close> while it is still
  \<^verbatim>\<open>None\<close>, \<^verbatim>\<open>ReferenceError\<close> when the proxy's referent is gone.
\<close>

definition get_trainer :: "heap \<Rightarrow> lightning_optimizer \<Rightarrow> py_error + trainer" where
  "get_trainer h self =
     (case self_trainer self of
        None \<Rightarrow> Inl AttributeError
      | Some r \<Rightarrow> (case h r of None \<Rightarrow> Inl ReferenceError | Some t \<Rightarrow> Inr t))"

text \<open>
  \<^verbatim>\<open>_accumulated_batches_reached\<close> (lines 88-93). Python's \<^verbatim>\<open>%\<close> on integers is the
  floored remainder, which is \<open>mod\<close> on \<open>int\<close>; a zero divisor raises
  \<^verbatim>\<open>ZeroDivisionError\<close>, and \<^verbatim>\<open>int % None\<close> raises \<^verbatim>\<open>TypeError\<close>.
\<close>

definition accumulated_batches_reached :: "heap \<Rightarrow> lightning_optimizer \<Rightarrow> py_error + bool" where
  "accumulated_batches_reached h self =
     (case (if self_use_accumulate_grad_batches_from_trainer self
            then (case get_trainer h self of
                    Inl e \<Rightarrow> Inl e
                  | Inr t \<Rightarrow> Inr (Some (accumulate_grad_batches t)))
            else Inr (self_accumulate_grad_batches self)) of
        Inl e \<Rightarrow> Inl e
      | Inr window \<Rightarrow>
          (case get_trainer h self of
             Inl e \<Rightarrow> Inl e
           | Inr t \<Rightarrow>
               (case window of
                  None \<Rightarrow> Inl TypeError
                | Some w \<Rightarrow>
                    if w = 0 then Inl ZeroDivisionError
                    else Inr ((batch_idx t + 1) mod w = 0))))"

text \<open>
  What the module does to the outside world is a trace of events, in order. An effectful
  computation returns the events it caused and its result or the exception it raised.
\<close>

datatype event =
    NumTrainingBatchesReached
  | ProfileStart string
  | ProfileStop string
  | BlockDdpSyncEnter
  | BlockDdpSyncExit
  | ClosureCall fn
  | XmOptimizerStep "(string \<times> py_value) list"
  | PrecisionBackendStep fn
  | OptimizerStep fn "py_value list" "(string \<times> py_value) list"
  | ZeroGrad

type_synonym 'a eff = "event list \<times> (py_error + 'a)"

text \<open>
  The property \<^verbatim>\<open>_should_accumulate\<close> (lines 95-100): both facts are computed and
  bound to local variables before they are combined, so the training loop is asked once
  on every access.
\<close>

definition should_accumulate :: "heap \<Rightarrow> lightning_optimizer \<Rightarrow> bool eff" where
  "should_accumulate h self =
     (case accumulated_batches_reached h self of
        Inl e \<Rightarrow> ([], Inl e)
      | Inr accumulation_done \<Rightarrow>
          (case get_trainer h self of
             Inl e \<Rightarrow> ([], Inl e)
           | Inr t \<Rightarrow>
               (let is_final_batch = num_training_batches_reached t
                in ([NumTrainingBatchesReached],
                    Inr (\<not> (accumulation_done \<or> is_final_batch))))))"

section \<open>The step dispatcher\<close>

text \<open>
  A call of an external collaborator is recorded as an event; the environment \<open>env\<close>
  says which calls raise (and what), and holds the module's global \<^verbatim>\<open>TPU_AVAILABLE\<close>
  of line 45: the name \<^verbatim>\<open>xm\<close> is bound (lines 47-48) exactly when it is true. A \<^verbatim>\<open>with\<close> block brackets the events of its body
  between the events of entering and leaving the scope; the scope is left on the
  exceptional path too, and the body's exception propagates. Entering and leaving the
  profiler's span and the training loop's block-sync scope are taken not to raise.
\<close>

record env =
  raises :: "event \<Rightarrow> py_error option"
  TPU_AVAILABLE :: bool

definition call :: "env \<Rightarrow> event \<Rightarrow> unit eff" where
  "call env ev = ([ev], (case raises env ev of None \<Rightarrow> Inr () | Some e \<Rightarrow> Inl e))"

definition with_scope :: "event \<Rightarrow> event \<Rightarrow> unit eff \<Rightarrow> unit eff" where
  "with_scope enter leave body = (enter # fst body @ [leave], snd body)"

definition and_then :: "'a eff \<Rightarrow> ('a \<Rightarrow> 'b eff) \<Rightarrow> 'b eff" where
  "and_then m k =
     (case snd m of
        Inl e \<Rightarrow> (fst m, Inl e)
      | Inr x \<Rightarrow> (fst m @ fst (k x), snd (k x)))"

text \<open>
  Lines 207-213: the closure is replaced by \<^verbatim>\<open>do_nothing_closure\<close> when absent, and
  must be an instance of \<^verbatim>\<open>types.FunctionType\<close> otherwise. The second component is
  the local variable \<^verbatim>\<open>profile_name\<close>, bound only when the closure is absent; nothing
  reads it afterwards.
\<close>

definition check_closure :: "py_value \<Rightarrow> py_error + (fn \<times> string option)" where
  "check_closure closure =
     (if closure = PyNone then Inr (do_nothing_closure, Some ''optimizer_step'')
      else (case closure of
              PyFunction f \<Rightarrow> Inr (f, None)
            | _ \<Rightarrow> Inl (MisconfigurationException
                         ''When closure is provided, it should be a function'')))"

text \<open>Lines 215-216: the decision, resolved into the local \<^verbatim>\<open>make_optimizer_step\<close>.\<close>

definition resolve_decision :: "heap \<Rightarrow> lightning_optimizer \<Rightarrow> bool option \<Rightarrow> bool eff" where
  "resolve_decision h self make_optimizer_step =
     (case make_optimizer_step of
        None \<Rightarrow> and_then (should_accumulate h self) (\<lambda>b. ([], Inr (\<not> b)))
      | Some b \<Rightarrow> ([], Inr b))"

text \<open>
  The dictionary display \<^verbatim>\<open>{'closure': closure, **kwargs}\<close> of line 224: the entries
  of \<^verbatim>\<open>kwargs\<close> are stored in order after the closure's.
\<close>

definition optimizer_args :: "fn \<Rightarrow> (string \<times> py_value) list \<Rightarrow> (string \<times> py_value) list" where
  "optimizer_args closure kwargs =
     fold (\<lambda>(k, v) d. AList.update k v d) kwargs [(''closure'', PyFunction closure)]"

text \<open>
  Lines 222-231: the three ways of taking the step. On the first, the name \<^verbatim>\<open>xm\<close> is
  looked up inside the profiling span; when it is not bound the lookup raises
  \<^verbatim>\<open>NameError\<close> and the accelerator's routine is not called.
\<close>

definition backend_path :: "env \<Rightarrow> trainer \<Rightarrow> string \<Rightarrow> fn \<Rightarrow> py_value list
    \<Rightarrow> (string \<times> py_value) list \<Rightarrow> unit eff" where
  "backend_path env trainer profiler_name closure args kwargs =
     (if on_tpu trainer then
        with_scope (ProfileStart profiler_name) (ProfileStop profiler_name)
          (if TPU_AVAILABLE env
           then call env (XmOptimizerStep (optimizer_args closure kwargs))
           else ([], Inl NameError))
      else if amp_backend trainer \<noteq> None then
        call env (PrecisionBackendStep closure)
      else
        with_scope (ProfileStart profiler_name) (ProfileStop profiler_name)
          (call env (OptimizerStep closure args kwargs)))"

text \<open>Lines 237-239: the closure alone, with gradient synchronisation blocked.\<close>

definition accumulate_path :: "env \<Rightarrow> fn \<Rightarrow> unit eff" where
  "accumulate_path env closure =
     with_scope BlockDdpSyncEnter BlockDdpSyncExit
       (with_scope (ProfileStart ''closure'') (ProfileStop ''closure'')
          (call env (ClosureCall closure)))"

text \<open>
  \<^verbatim>\<open>step\<close> (lines 102-239). The trainer is first dereferenced by the decision when the
  caller gave none, and by the branch taken otherwise.
\<close>

definition step :: "env \<Rightarrow> heap \<Rightarrow> lightning_optimizer \<Rightarrow> py_value list \<Rightarrow> py_value
    \<Rightarrow> bool option \<Rightarrow> (string \<times> py_value) list \<Rightarrow> unit eff" where
  "step env h self args closure make_optimizer_step kwargs =
     (let profiler_name = ''optimizer_step_and_closure'' in
      case check_closure closure of
        Inl e \<Rightarrow> ([], Inl e)
      | Inr (closure, profile_name) \<Rightarrow>
          and_then (resolve_decision h self make_optimizer_step)
            (\<lambda>make_optimizer_step.
               case get_trainer h self of
                 Inl e \<Rightarrow> ([], Inl e)
               | Inr trainer \<Rightarrow>
                   if make_optimizer_step then
                     and_then (backend_path env trainer profiler_name closure args kwargs)
                       (\<lambda>_. call env ZeroGrad)
                   else accumulate_path env closure))"

text \<open>The events that are one of the three ways of taking the step.\<close>

fun is_backend_step :: "event \<Rightarrow> bool" where
  "is_backend_step (XmOptimizerStep d) = True"
| "is_backend_step (PrecisionBackendStep f) = True"
| "is_backend_step (OptimizerStep f a k) = True"
| "is_backend_step e = False"

section \<open>The string representation\<close>

text \<open>
  \<^verbatim>\<open>f'{round(v, 12)}'\<close> (line 248). \<^verbatim>\<open>round\<close> with a non-negative number of
  digits returns an \<^verbatim>\<open>int\<close> unchanged (a \<^verbatim>\<open>bool\<close> as the \<^verbatim>\<open>int\<close> it is), rounds
  a float, and raises \<^verbatim>\<open>TypeError\<close> on a value with no \<^verbatim>\<open>__round__\<close>.
\<close>

definition format_rounded :: "builtins \<Rightarrow> py_value \<Rightarrow> py_error + string" where
  "format_rounded bi v =
     (case v of
        PyInt n \<Rightarrow> Inr (str_int n)
      | PyBool b \<Rightarrow> Inr (str_int (if b then 1 else 0))
      | PyFloat x \<Rightarrow> Inr (float_str bi (float_round bi x 12))
      | _ \<Rightarrow> Inl TypeError)"

text \<open>The values a \<^verbatim>\<open>for\<close> loop draws from an object.\<close>

definition iter_items :: "py_value \<Rightarrow> py_error + py_value list" where
  "iter_items v =
     (case v of
        PyList xs \<Rightarrow> Inr xs
      | PyTuple xs \<Rightarrow> Inr xs
      | PyDict d \<Rightarrow> Inr (map (\<lambda>kv. PyStr (fst kv)) d)
      | PyStr s \<Rightarrow> Inr (map (\<lambda>c. PyStr [c]) s)
      | _ \<Rightarrow> Inl TypeError)"

text \<open>
  The inner loop of \<^verbatim>\<open>__repr__\<close> (lines 246-248) over the sorted keys, with the string
  \<^verbatim>\<open>params\<close> built so far.
\<close>

fun repr_params :: "builtins \<Rightarrow> (string \<times> py_value) list \<Rightarrow> string list \<Rightarrow> string
    \<Rightarrow> py_error + string" where
  "repr_params bi grp [] params = Inr params"
| "repr_params bi grp (key # keys) params =
     (if key \<noteq> ''params'' then
        (case map_of grp key of
           None \<Rightarrow> Inl KeyError
         | Some v \<Rightarrow>
             (case format_rounded bi v of
                Inl e \<Rightarrow> Inl e
              | Inr s \<Rightarrow> repr_params bi grp keys (params @ key @ ''='' @ s @ '', '')))
      else repr_params bi grp keys params)"

text \<open>
  The outer loop (lines 243-250), with the string \<^verbatim>\<open>groups\<close> built so far.
  \<^verbatim>\<open>params[:-2]\<close> drops the last two characters (all of them when there are fewer).
\<close>

fun repr_groups :: "builtins \<Rightarrow> py_value list \<Rightarrow> string \<Rightarrow> py_error + string" where
  "repr_groups bi [] groups = Inr groups"
| "repr_groups bi (grp # rest) groups =
     (case grp of
        PyDict d \<Rightarrow>
          (case repr_params bi d (sort (map fst d)) [] of
             Inl e \<Rightarrow> Inl e
           | Inr params \<Rightarrow>
               repr_groups bi rest
                 (groups @ ''('' @ take (length params - 2) params @ ''),''))
      | _ \<Rightarrow> Inl AttributeError)"

text \<open>
  \<^verbatim>\<open>__repr__\<close> (lines 241-253). \<^verbatim>\<open>self.param_groups\<close> is found in the mirrored
  dictionary; \<^verbatim>\<open>groups[:-1]\<close> drops the last character.
\<close>

definition repr :: "builtins \<Rightarrow> lightning_optimizer \<Rightarrow> py_error + string" where
  "repr bi self =
     (case map_of (self_dict self) ''param_groups'' of
        None \<Rightarrow> Inl AttributeError
      | Some param_groups \<Rightarrow>
          (case iter_items param_groups of
             Inl e \<Rightarrow> Inl e
           | Inr gs \<Rightarrow>
               (case repr_groups bi gs ''['' of
                  Inl e \<Rightarrow> Inl e
                | Inr groups \<Rightarrow>
                    Inr (''LightningOptimizer(optim='' @ class_name (self_optimizer self)
                         @ '', groups='' @ (butlast groups @ '']'') @ '')''))))"

subsection \<open>The representation as the specification words it\<close>

text \<open>
  The specification's description of the string, written independently of the loops:
  \<open>join sep\<close> puts a separator between the items of a list; a numeric value is shown
  rounded to 12 digits; a group lists its keys other than \<^verbatim>\<open>params\<close>, sorted.
\<close>

fun join :: "string \<Rightarrow> string list \<Rightarrow> string" where
  "join sep [] = []"
| "join sep [x] = x"
| "join sep (x # y # ys) = x @ sep @ join sep (y # ys)"

fun is_numeric :: "py_value \<Rightarrow> bool" where
  "is_numeric (PyInt n) = True"
| "is_numeric (PyBool b) = True"
| "is_numeric (PyFloat x) = True"
| "is_numeric v = False"

fun numeric_12 :: "builtins \<Rightarrow> py_value \<Rightarrow> string" where
  "numeric_12 bi (PyInt n) = str_int n"
| "numeric_12 bi (PyBool b) = str_int (if b then 1 else 0)"
| "numeric_12 bi (PyFloat x) = float_str bi (float_round bi x 12)"
| "numeric_12 bi v = []"

definition group_listing :: "builtins \<Rightarrow> (string \<times> py_value) list \<Rightarrow> string" where
  "group_listing bi g =
     ''('' @ join '', ''
              (map (\<lambda>k. k @ ''='' @ (case map_of g k of Some v \<Rightarrow> numeric_12 bi v | None \<Rightarrow> []))
                 (filter (\<lambda>k. k \<noteq> ''params'') (sort (map fst g))))
     @ '')''"

definition numeric_groups :: "(string \<times> py_value) list list \<Rightarrow> bool" where
  "numeric_groups gs = list_all (list_all (\<lambda>kv. fst kv = ''params'' \<or> is_numeric (snd kv))) gs"

section \<open>Example states\<close>

text \<open>
  An SGD optimizer with one parameter group and learning rate 0.1 (the float with bits
  \<open>0x3FB999999999999A\<close>), a trainer in the middle of an epoch, wrappers around the
  optimizer, an environment in which no external call raises (and \<^verbatim>\<open>xm\<close> is not
  bound, as on a machine without a TPU), and the two float builtins
  on the one float that occurs (\<^verbatim>\<open>round(0.1, 12)\<close> is \<^verbatim>\<open>0.1\<close>, printed
  \<^verbatim>\<open>0.1\<close>). They instantiate the theorems below.
\<close>

definition sgd :: optimizer where
  "sgd = \<lparr> class_name = ''SGD'',
           dict = [(''defaults'', PyDict [(''lr'', PyFloat 0x3FB999999999999A),
                                         (''momentum'', PyInt 0)]),
                   (''state'', PyDict []),
                   (''param_groups'',
                      PyList [PyDict [(''params'', PyList [PyObject 7]),
                                      (''lr'', PyFloat 0x3FB999999999999A),
                                      (''momentum'', PyInt 0),
                                      (''dampening'', PyInt 0),
                                      (''weight_decay'', PyInt 0),
                                      (''nesterov'', PyBool False)]])],
           class_attrs = [(''step'', PyObject 1), (''zero_grad'', PyObject 2)] \<rparr>"

definition plain_trainer :: trainer where
  "plain_trainer = \<lparr> accumulate_grad_batches = 4, batch_idx = 1,
                     num_training_batches_reached = False,
                     on_tpu = False, amp_backend = None \<rparr>"

definition wrapper :: "int option \<Rightarrow> lightning_optimizer" where
  "wrapper count = \<lparr> self_dict = dict sgd,
                     self_trainer = Some 0,
                     self_optimizer = sgd,
                     self_accumulate_grad_batches = count,
                     self_use_accumulate_grad_batches_from_trainer = (count = None) \<rparr>"

definition quiet :: env where
  "quiet = \<lparr> raises = (\<lambda>ev. None), TPU_AVAILABLE = False \<rparr>"

definition printer :: builtins where
  "printer = \<lparr> float_round = (\<lambda>x ndigits. x),
               float_str = (\<lambda>x. if x = 0x3FB999999999999A then ''0.1'' else ''nan'') \<rparr>"


section \<open>Facts about the building blocks\<close>

lemmas eff_defs = call_def with_scope_def and_then_def

lemma check_closure_None:
  "check_closure PyNone = Inr (do_nothing_closure, Some ''optimizer_step'')"
  by (simp add: check_closure_def)

lemma check_closure_function:
  "check_closure (PyFunction f) = Inr (f, None)"
  by (simp add: check_closure_def)

lemma get_trainer_example:
  "get_trainer (\<lambda>r. Some t) (wrapper count) = Inr t"
  by (simp add: get_trainer_def wrapper_def)

lemma should_accumulate_trace:
  assumes "should_accumulate h self = (tr, Inr b)"
  shows "tr = [NumTrainingBatchesReached]"
  using assms by (auto simp: should_accumulate_def split: sum.splits)

lemma resolve_decision_Some:
  "resolve_decision h self (Some d) = ([], Inr d)"
  by (simp add: resolve_decision_def)

lemma resolve_decision_None:
  assumes "should_accumulate h self = (tr, Inr b)"
  shows "resolve_decision h self None = (tr, Inr (\<not> b))"
  using assms by (simp add: resolve_decision_def and_then_def)

lemma resolve_decision_trace:
  assumes "resolve_decision h self mos = (tr, Inr d)"
  shows "tr = (if mos = None then [NumTrainingBatchesReached] else [])"
  using assms
  by (auto simp: resolve_decision_def should_accumulate_def eff_defs
           split: option.splits sum.splits)

lemma backend_path_trace:
  "fst (backend_path env t p f args kwargs) =
     (if on_tpu t then
        (if TPU_AVAILABLE env
         then [ProfileStart p, XmOptimizerStep (optimizer_args f kwargs), ProfileStop p]
         else [ProfileStart p, ProfileStop p])
      else if amp_backend t \<noteq> None then [PrecisionBackendStep f]
      else [ProfileStart p, OptimizerStep f args kwargs, ProfileStop p])"
  by (simp add: backend_path_def eff_defs)

lemma accumulate_path_eq:
  "accumulate_path env f =
     ([BlockDdpSyncEnter, ProfileStart ''closure'', ClosureCall f, ProfileStop ''closure'',
       BlockDdpSyncExit],
      (case raises env (ClosureCall f) of None \<Rightarrow> Inr () | Some e \<Rightarrow> Inl e))"
  by (simp add: accumulate_path_def eff_defs)

text \<open>
  The whole of \<^verbatim>\<open>step\<close> once the closure is accepted, the decision is resolved to
  \<open>d\<close> and the trainer is attached: the events of the decision, then those of the branch.
\<close>

lemma step_resolved:
  assumes "check_closure closure = Inr (f, pn)"
    and "resolve_decision h self mos = (tr, Inr d)"
    and "get_trainer h self = Inr t"
  shows "step env h self args closure mos kwargs =
     (if d then
        (tr @ fst (backend_path env t ''optimizer_step_and_closure'' f args kwargs)
            @ (case snd (backend_path env t ''optimizer_step_and_closure'' f args kwargs) of
                 Inl e \<Rightarrow> [] | Inr u \<Rightarrow> [ZeroGrad]),
         (case snd (backend_path env t ''optimizer_step_and_closure'' f args kwargs) of
            Inl e \<Rightarrow> Inl e
          | Inr u \<Rightarrow> (case raises env ZeroGrad of None \<Rightarrow> Inr () | Some e \<Rightarrow> Inl e)))
      else (tr @ fst (accumulate_path env f), snd (accumulate_path env f)))"
  using assms
  by (simp add: step_def and_then_def call_def split: sum.splits)

text \<open>
  With \<^verbatim>\<open>on_tpu\<close> set and \<^verbatim>\<open>xm\<close> not bound, a call resolved to taking the step
  opens and closes the span and raises \<^verbatim>\<open>NameError\<close>: no step routine and no
  \<^verbatim>\<open>zero_grad\<close> is invoked.
\<close>

lemma step_xm_unbound:
  assumes "check_closure closure = Inr (f, pn)"
    and "resolve_decision h self mos = (tr, Inr True)"
    and "get_trainer h self = Inr t"
    and "on_tpu t" and "\<not> TPU_AVAILABLE env"
  shows "step env h self args closure mos kwargs
         = (tr @ [ProfileStart ''optimizer_step_and_closure'',
                  ProfileStop ''optimizer_step_and_closure''], Inl NameError)"
  using step_resolved [OF assms(1,2,3), where env = env and args = args and kwargs = kwargs]
    assms(4,5)
  by (simp add: backend_path_def eff_defs)

text \<open>Evaluating \<^verbatim>\<open>step\<close> on concrete inputs.\<close>

lemmas step_eval =
  step_def check_closure_def resolve_decision_def should_accumulate_def
  accumulated_batches_reached_def get_trainer_def backend_path_def accumulate_path_def
  optimizer_args_def eff_defs Let_def wrapper_def plain_trainer_def quiet_def

section \<open>The accumulation policy\<close>

text \<open>
  Claim C1. For a wrapper whose trainer is attached, with window \<open>w\<close> (the configured
  count \<open>n\<close> when the wrapper holds one, the trainer's value at the time of the call
  otherwise), \<open>w\<close> not zero, and batch index \<open>i\<close>:
  \<^verbatim>\<open>_accumulated_batches_reached()\<close> returns whether \<open>(i + 1) mod w = 0\<close>, and
  \<^verbatim>\<open>_should_accumulate\<close> returns whether \<open>(i + 1) mod w \<noteq> 0\<close> and the batch is not the
  final one of the loop; so it is false whenever the batch is the final one.
\<close>

theorem accumulation_policy:
  assumes "self_trainer self = Some r" and "h r = Some t"
    and "w = (if self_use_accumulate_grad_batches_from_trainer self
              then accumulate_grad_batches t else n)"
    and "self_use_accumulate_grad_batches_from_trainer self
         \<or> self_accumulate_grad_batches self = Some n"
    and "w \<noteq> 0"
  shows "accumulated_batches_reached h self = Inr ((batch_idx t + 1) mod w = 0)
       \<and> snd (should_accumulate h self)
           = Inr ((batch_idx t + 1) mod w \<noteq> 0 \<and> \<not> num_training_batches_reached t)
       \<and> (num_training_batches_reached t \<longrightarrow> snd (should_accumulate h self) = Inr False)"
  using assms
  by (auto simp: accumulated_batches_reached_def should_accumulate_def get_trainer_def)

text \<open>
  The specification's example: window 4, batch index 1, final batch; and the count
  boundary at batch index 3.
\<close>

theorem accumulation_policy_witness:
  "accumulated_batches_reached
       (\<lambda>r. Some (plain_trainer\<lparr>num_training_batches_reached := True\<rparr>)) (wrapper (Some 4))
     = Inr False
   \<and> snd (should_accumulate
       (\<lambda>r. Some (plain_trainer\<lparr>num_training_batches_reached := True\<rparr>)) (wrapper (Some 4)))
     = Inr False
   \<and> accumulated_batches_reached
       (\<lambda>r. Some (plain_trainer\<lparr>batch_idx := 3\<rparr>)) (wrapper (Some 4))
     = Inr True"
  using accumulation_policy [of "wrapper (Some 4)" 0
      "\<lambda>r. Some (plain_trainer\<lparr>num_training_batches_reached := True\<rparr>)"
      "plain_trainer\<lparr>num_training_batches_reached := True\<rparr>" 4 4]
    accumulation_policy [of "wrapper (Some 4)" 0
      "\<lambda>r. Some (plain_trainer\<lparr>batch_idx := 3\<rparr>)"
      "plain_trainer\<lparr>batch_idx := 3\<rparr>" 4 4]
  by (simp add: wrapper_def plain_trainer_def)

text \<open>At window 0 the remainder is not computed: the call raises.\<close>

lemma accumulation_window_zero:
  assumes "self_trainer self = Some r" and "h r = Some t"
    and "self_use_accumulate_grad_batches_from_trainer self"
    and "accumulate_grad_batches t = 0"
  shows "accumulated_batches_reached h self = Inl ZeroDivisionError"
  using assms by (simp add: accumulated_batches_reached_def get_trainer_def)

section \<open>Construction\<close>

lemma copy_horovod_ok:
  assumes "hasattr opt ''skip_synchronize'' \<longrightarrow> hasattr opt ''synchronize''"
  shows "\<exists>d'. copy_horovod opt d = Inr d'"
  using assms by (auto simp: copy_horovod_def hasattr_def split: option.splits)

lemma init_int:
  assumes "1 \<le> n" and "copy_horovod opt (copy_dict (dict opt) []) = Inr d"
  shows "init opt (PyInt n) = Inr \<lparr> self_dict = d, self_trainer = None, self_optimizer = opt,
            self_accumulate_grad_batches = Some n,
            self_use_accumulate_grad_batches_from_trainer = False \<rparr>"
  using assms by (simp add: init_def)

lemma init_None:
  assumes "init opt PyNone = Inr self"
  shows "self_use_accumulate_grad_batches_from_trainer self \<and> self_trainer self = None"
  using assms by (auto simp: init_def split: sum.splits)

lemma init_sgd:
  "init sgd (PyInt 3) = Inr ((wrapper (Some 3))\<lparr>self_trainer := None\<rparr>)"
  by (simp add: init_def sgd_def wrapper_def copy_horovod_def hasattr_def getattr_def)

text \<open>
  Claim C2, as the code has it. A count that is neither \<^verbatim>\<open>None\<close> nor an integer is
  rejected by the assertion of line 64, with \<^verbatim>\<open>AssertionError\<close> and no message; an
  integer \<open>m < 1\<close> is rejected with a configuration error whose message holds \<open>m\<close>; for
  every integer \<open>n \<ge> 1\<close> (and an optimizer that has \<^verbatim>\<open>synchronize\<close> whenever it has
  \<^verbatim>\<open>skip_synchronize\<close>) construction succeeds, records \<open>n\<close>, and every later
  \<^verbatim>\<open>_accumulated_batches_reached()\<close> uses \<open>n\<close> whatever the trainer holds; the
  trainer's value is used when no count was given.
\<close>

theorem construction_validation:
  "(v \<noteq> PyNone \<and> \<not> isinstance_int v \<longrightarrow> init opt v = Inl AssertionError)
   \<and> (m < 1 \<longrightarrow> init opt (PyInt m)
         = Inl (MisconfigurationException
                 (''accumulate_grad_batches parameters '' @ str_int m @ '' should be >= 1'')))
   \<and> (1 \<le> n \<and> (hasattr opt ''skip_synchronize'' \<longrightarrow> hasattr opt ''synchronize'') \<longrightarrow>
        (\<exists>self. init opt (PyInt n) = Inr self
           \<and> self_accumulate_grad_batches self = Some n
           \<and> \<not> self_use_accumulate_grad_batches_from_trainer self
           \<and> (\<forall>h r t. h r = Some t \<longrightarrow>
                 accumulated_batches_reached h (on_trainer_init self r)
                   = Inr ((batch_idx t + 1) mod n = 0))))
   \<and> (init opt PyNone = Inr self0 \<and> h0 r0 = Some t0 \<and> accumulate_grad_batches t0 \<noteq> 0 \<longrightarrow>
        accumulated_batches_reached h0 (on_trainer_init self0 r0)
          = Inr ((batch_idx t0 + 1) mod accumulate_grad_batches t0 = 0))"
proof -
  have a: "init opt v = Inl AssertionError" if "v \<noteq> PyNone" "\<not> isinstance_int v"
    using that by (simp add: init_def)
  have b: "init opt (PyInt m)
         = Inl (MisconfigurationException
                 (''accumulate_grad_batches parameters '' @ str_int m @ '' should be >= 1''))"
    if "m < 1"
    using that by (simp add: init_def format_int_instance_def)
  have c: "\<exists>self. init opt (PyInt n) = Inr self
           \<and> self_accumulate_grad_batches self = Some n
           \<and> \<not> self_use_accumulate_grad_batches_from_trainer self
           \<and> (\<forall>h r t. h r = Some t \<longrightarrow>
                 accumulated_batches_reached h (on_trainer_init self r)
                   = Inr ((batch_idx t + 1) mod n = 0))"
    if n: "1 \<le> n" and hv: "hasattr opt ''skip_synchronize'' \<longrightarrow> hasattr opt ''synchronize''"
  proof -
    obtain d where d: "copy_horovod opt (copy_dict (dict opt) []) = Inr d"
      using copy_horovod_ok [OF hv] by blast
    show ?thesis
      using n by (simp add: init_int [OF n d] accumulated_batches_reached_def
          on_trainer_init_def get_trainer_def)
  qed
  have d: "accumulated_batches_reached h0 (on_trainer_init self0 r0)
          = Inr ((batch_idx t0 + 1) mod accumulate_grad_batches t0 = 0)"
    if "init opt PyNone = Inr self0" "h0 r0 = Some t0" "accumulate_grad_batches t0 \<noteq> 0"
    using init_None [OF that(1)] that(2,3)
    by (simp add: accumulated_batches_reached_def on_trainer_init_def get_trainer_def)
  from a b c d show ?thesis by blast
qed

lemma init_sgd_None:
  "init sgd PyNone = Inr ((wrapper None)\<lparr>self_trainer := None\<rparr>)"
  by (simp add: init_def sgd_def wrapper_def copy_horovod_def hasattr_def getattr_def)

lemma hasattr_sgd: "\<not> hasattr sgd ''skip_synchronize''"
  by (simp add: sgd_def hasattr_def getattr_def)

theorem construction_validation_witness:
  "init sgd (PyStr ''2'') = Inl AssertionError
   \<and> init sgd (PyInt 0)
       = Inl (MisconfigurationException ''accumulate_grad_batches parameters 0 should be >= 1'')
   \<and> init sgd (PyInt 3) = Inr ((wrapper (Some 3))\<lparr>self_trainer := None\<rparr>)
   \<and> accumulated_batches_reached (\<lambda>r. Some (plain_trainer\<lparr>batch_idx := 2\<rparr>))
        (on_trainer_init ((wrapper (Some 3))\<lparr>self_trainer := None\<rparr>) 0) = Inr True
   \<and> init sgd PyNone = Inr ((wrapper None)\<lparr>self_trainer := None\<rparr>)
   \<and> accumulated_batches_reached (\<lambda>r. Some (plain_trainer\<lparr>batch_idx := 3\<rparr>))
        (on_trainer_init ((wrapper None)\<lparr>self_trainer := None\<rparr>) 0) = Inr True"
  using construction_validation [where v = "PyStr ''2''" and opt = sgd and m = 0 and n = 3
      and ?self0.0 = "(wrapper None)\<lparr>self_trainer := None\<rparr>"
      and ?h0.0 = "\<lambda>r. Some (plain_trainer\<lparr>batch_idx := 3\<rparr>)" and ?r0.0 = 0
      and ?t0.0 = "plain_trainer\<lparr>batch_idx := 3\<rparr>"]
  by (simp add: init_sgd init_sgd_None hasattr_sgd plain_trainer_def str_int_def
      digits_of_nat.simps)

text \<open>
  The claim as stated fails on a count that is not an integer: the string \<^verbatim>\<open>'2'\<close> is
  rejected by the assertion, not with a configuration error.
\<close>

theorem construction_validation_counterexample:
  "init sgd (PyStr ''2'') = Inl AssertionError
   \<and> (\<forall>msg. init sgd (PyStr ''2'') \<noteq> Inl (MisconfigurationException msg))"
  by (simp add: init_def)

section \<open>The step dispatcher: decision and branches\<close>

text \<open>
  Claim C3. For a call of \<^verbatim>\<open>step\<close> with a valid closure (absent, or a function) on an
  attached wrapper: when \<^verbatim>\<open>make_optimizer_step\<close> is given, its value alone selects the
  branch, and the policy is not consulted: \<^verbatim>\<open>True\<close> runs a backend path and then
  \<^verbatim>\<open>zero_grad\<close> (so gradients are reset once the backend path has returned), \<^verbatim>\<open>False\<close>
  runs the closure alone. When it is absent, the call is the one with the decision
  \<open>\<not> _should_accumulate\<close>, after the single reading of the policy.
\<close>

theorem decision_override:
  assumes "check_closure closure = Inr (f, pn)" and "get_trainer h self = Inr t"
  shows "step env h self args closure (Some True) kwargs
           = and_then (backend_path env t ''optimizer_step_and_closure'' f args kwargs)
               (\<lambda>u. call env ZeroGrad)
       \<and> (snd (backend_path env t ''optimizer_step_and_closure'' f args kwargs) = Inr ()
            \<longrightarrow> ZeroGrad \<in> set (fst (step env h self args closure (Some True) kwargs)))
       \<and> step env h self args closure (Some False) kwargs = accumulate_path env f
       \<and> (\<forall>b. NumTrainingBatchesReached
                 \<notin> set (fst (step env h self args closure (Some b) kwargs)))
       \<and> (\<forall>tr b. should_accumulate h self = (tr, Inr b) \<longrightarrow>
             step env h self args closure None kwargs
               = (tr @ fst (step env h self args closure (Some (\<not> b)) kwargs),
                  snd (step env h self args closure (Some (\<not> b)) kwargs))
             \<and> count_list (fst (step env h self args closure None kwargs))
                  NumTrainingBatchesReached = 1)"
proof -
  note s = step_resolved [OF assms(1) resolve_decision_Some assms(2)]
  have a: "step env h self args closure (Some True) kwargs
           = and_then (backend_path env t ''optimizer_step_and_closure'' f args kwargs)
               (\<lambda>u. call env ZeroGrad)"
    by (simp add: s and_then_def call_def split: sum.splits)
  have b: "snd (backend_path env t ''optimizer_step_and_closure'' f args kwargs) = Inr ()
            \<longrightarrow> ZeroGrad \<in> set (fst (step env h self args closure (Some True) kwargs))"
    by (simp add: s)
  have c: "step env h self args closure (Some False) kwargs = accumulate_path env f"
    by (simp add: s)
  have d: "NumTrainingBatchesReached
             \<notin> set (fst (step env h self args closure (Some b) kwargs))" for b
    by (simp add: s backend_path_trace accumulate_path_eq split: sum.splits)
  have e: "step env h self args closure None kwargs
               = (tr @ fst (step env h self args closure (Some (\<not> b)) kwargs),
                  snd (step env h self args closure (Some (\<not> b)) kwargs))
             \<and> count_list (fst (step env h self args closure None kwargs))
                  NumTrainingBatchesReached = 1"
    if sa: "should_accumulate h self = (tr, Inr b)" for tr b
  proof -
    note n = step_resolved [OF assms(1) resolve_decision_None [OF sa] assms(2)]
    have tr: "tr = [NumTrainingBatchesReached]"
      by (rule should_accumulate_trace [OF sa])
    show ?thesis
      by (simp add: n s tr backend_path_trace accumulate_path_eq split: sum.splits)
  qed
  from a b c d e show ?thesis by blast
qed

text \<open>
  Window 4 at batch index 1, not the final batch: the policy says accumulate, and an
  explicit \<^verbatim>\<open>True\<close> takes the step all the same.
\<close>

theorem decision_override_witness:
  "step quiet (\<lambda>r. Some plain_trainer) (wrapper (Some 4)) [] (PyFunction (UserFunction 3))
      (Some True) []
     = ([ProfileStart ''optimizer_step_and_closure'', OptimizerStep (UserFunction 3) [] [],
         ProfileStop ''optimizer_step_and_closure'', ZeroGrad], Inr ())
   \<and> step quiet (\<lambda>r. Some plain_trainer) (wrapper (Some 4)) [] (PyFunction (UserFunction 3))
      (Some False) []
     = ([BlockDdpSyncEnter, ProfileStart ''closure'', ClosureCall (UserFunction 3),
         ProfileStop ''closure'', BlockDdpSyncExit], Inr ())
   \<and> step quiet (\<lambda>r. Some plain_trainer) (wrapper (Some 4)) [] (PyFunction (UserFunction 3))
      None []
     = ([NumTrainingBatchesReached, BlockDdpSyncEnter, ProfileStart ''closure'',
         ClosureCall (UserFunction 3), ProfileStop ''closure'', BlockDdpSyncExit], Inr ())"
proof -
  have sa: "should_accumulate (\<lambda>r. Some plain_trainer) (wrapper (Some 4))
            = ([NumTrainingBatchesReached], Inr True)"
    by (simp add: step_eval)
  note d = decision_override [where env = quiet and args = "[]" and kwargs = "[]"
      and f = "UserFunction 3" and t = plain_trainer and self = "wrapper (Some 4)",
      OF check_closure_function get_trainer_example]
  have 1: "step quiet (\<lambda>r. Some plain_trainer) (wrapper (Some 4)) []
             (PyFunction (UserFunction 3)) (Some True) []
           = and_then (backend_path quiet plain_trainer ''optimizer_step_and_closure''
                         (UserFunction 3) [] [])
               (\<lambda>u. call quiet ZeroGrad)"
    using d by blast
  have 2: "step quiet (\<lambda>r. Some plain_trainer) (wrapper (Some 4)) []
             (PyFunction (UserFunction 3)) (Some False) []
           = accumulate_path quiet (UserFunction 3)"
    using d by blast
  have 3: "step quiet (\<lambda>r. Some plain_trainer) (wrapper (Some 4)) []
             (PyFunction (UserFunction 3)) None []
           = ([NumTrainingBatchesReached]
                @ fst (step quiet (\<lambda>r. Some plain_trainer) (wrapper (Some 4)) []
                        (PyFunction (UserFunction 3)) (Some (\<not> True)) []),
              snd (step quiet (\<lambda>r. Some plain_trainer) (wrapper (Some 4)) []
                        (PyFunction (UserFunction 3)) (Some (\<not> True)) []))"
    using d sa by blast
  have 4: "and_then (backend_path quiet plain_trainer ''optimizer_step_and_closure''
                         (UserFunction 3) [] [])
               (\<lambda>u. call quiet ZeroGrad)
           = ([ProfileStart ''optimizer_step_and_closure'', OptimizerStep (UserFunction 3) [] [],
               ProfileStop ''optimizer_step_and_closure'', ZeroGrad], Inr ())"
    by (simp add: backend_path_def eff_defs plain_trainer_def quiet_def)
  have 5: "accumulate_path quiet (UserFunction 3)
           = ([BlockDdpSyncEnter, ProfileStart ''closure'', ClosureCall (UserFunction 3),
               ProfileStop ''closure'', BlockDdpSyncExit], Inr ())"
    by (simp add: accumulate_path_eq quiet_def)
  show ?thesis
    using 1 2 3 by (simp only: 4 5 simp_thms fst_conv snd_conv append.simps)
qed

text \<open>The default path on the example trainer, when no external call raises.\<close>

lemma backend_example:
  "backend_path quiet plain_trainer ''optimizer_step_and_closure'' f args kwargs
   = ([ProfileStart ''optimizer_step_and_closure'', OptimizerStep f args kwargs,
       ProfileStop ''optimizer_step_and_closure''], Inr ())"
  by (simp add: backend_path_def eff_defs plain_trainer_def quiet_def)

text \<open>
  Claim C4. When the decision resolves to taking the step and the backend path returns
  without raising, the events of the call are those of the decision, those of the backend
  path, and then \<^verbatim>\<open>zero_grad\<close>: it is invoked exactly once, after the backend path.
  When the decision resolves to accumulating, \<^verbatim>\<open>zero_grad\<close> is not invoked.
\<close>

theorem zero_grad_once:
  assumes "check_closure closure = Inr (f, pn)"
    and "resolve_decision h self mos = (tr, Inr d)"
  shows "(d \<and> get_trainer h self = Inr t
            \<and> snd (backend_path env t ''optimizer_step_and_closure'' f args kwargs) = Inr ()
          \<longrightarrow> fst (step env h self args closure mos kwargs)
                = tr @ fst (backend_path env t ''optimizer_step_and_closure'' f args kwargs)
                     @ [ZeroGrad]
              \<and> count_list (fst (step env h self args closure mos kwargs)) ZeroGrad = 1)
       \<and> (\<not> d \<longrightarrow> ZeroGrad \<notin> set (fst (step env h self args closure mos kwargs)))"
proof -
  have tr: "tr = (if mos = None then [NumTrainingBatchesReached] else [])"
    by (rule resolve_decision_trace [OF assms(2)])
  have a: "fst (step env h self args closure mos kwargs)
                = tr @ fst (backend_path env t ''optimizer_step_and_closure'' f args kwargs)
                     @ [ZeroGrad]
              \<and> count_list (fst (step env h self args closure mos kwargs)) ZeroGrad = 1"
    if "d" and g: "get_trainer h self = Inr t"
      and "snd (backend_path env t ''optimizer_step_and_closure'' f args kwargs) = Inr ()"
    using that step_resolved [where env = env and args = args and kwargs = kwargs, OF assms g]
    by (simp add: tr backend_path_trace)
  have b: "ZeroGrad \<notin> set (fst (step env h self args closure mos kwargs))" if "\<not> d"
  proof (cases "get_trainer h self")
    case (Inl e)
    then show ?thesis using assms that
      by (simp add: step_def and_then_def tr)
  next
    case (Inr t')
    show ?thesis using that step_resolved [where env = env and args = args and kwargs = kwargs, OF assms Inr]
      by (simp add: tr accumulate_path_eq)
  qed
  from a b show ?thesis by blast
qed

theorem zero_grad_once_witness:
  "fst (step quiet (\<lambda>r. Some plain_trainer) (wrapper (Some 4)) []
          (PyFunction (UserFunction 3)) (Some True) [])
     = [ProfileStart ''optimizer_step_and_closure'', OptimizerStep (UserFunction 3) [] [],
        ProfileStop ''optimizer_step_and_closure'', ZeroGrad]
   \<and> count_list (fst (step quiet (\<lambda>r. Some plain_trainer) (wrapper (Some 4)) []
          (PyFunction (UserFunction 3)) (Some True) [])) ZeroGrad = 1
   \<and> ZeroGrad \<notin> set (fst (step quiet (\<lambda>r. Some plain_trainer) (wrapper (Some 4)) []
          (PyFunction (UserFunction 3)) (Some False) []))"
proof -
  note z = zero_grad_once [where env = quiet and args = "[]" and kwargs = "[]"
      and self = "wrapper (Some 4)" and h = "\<lambda>r. Some plain_trainer" and t = plain_trainer,
      OF check_closure_function resolve_decision_Some]
  have 1: "fst (step quiet (\<lambda>r. Some plain_trainer) (wrapper (Some 4)) []
                 (PyFunction (UserFunction 3)) (Some True) [])
           = [] @ fst (backend_path quiet plain_trainer ''optimizer_step_and_closure''
                         (UserFunction 3) [] []) @ [ZeroGrad]
         \<and> count_list (fst (step quiet (\<lambda>r. Some plain_trainer) (wrapper (Some 4)) []
                 (PyFunction (UserFunction 3)) (Some True) [])) ZeroGrad = 1"
    using z [of True "UserFunction 3"] by (simp add: get_trainer_example backend_example)
  have 2: "ZeroGrad \<notin> set (fst (step quiet (\<lambda>r. Some plain_trainer) (wrapper (Some 4)) []
          (PyFunction (UserFunction 3)) (Some False) []))"
    using z [of False "UserFunction 3"] by simp
  show ?thesis
    using 1 2 by (simp add: backend_example)
qed

text \<open>
  Claim C5. When the decision resolves to accumulating (valid closure, attached wrapper),
  the events of the call after those of the decision are: entering the block-sync scope
  of the training loop, entering the profiling span \<^verbatim>\<open>closure\<close>, one call of the
  closure, and leaving the two scopes. The closure is called exactly once, no other
  closure is called, and none of the three step routines is invoked.
\<close>

theorem accumulate_runs_closure_once:
  assumes "check_closure closure = Inr (f, pn)"
    and "resolve_decision h self mos = (tr, Inr False)"
    and "get_trainer h self = Inr t"
  shows "fst (step env h self args closure mos kwargs)
           = tr @ [BlockDdpSyncEnter, ProfileStart ''closure'', ClosureCall f,
                   ProfileStop ''closure'', BlockDdpSyncExit]
       \<and> (\<forall>g. count_list (fst (step env h self args closure mos kwargs)) (ClosureCall g)
                = (if g = f then 1 else 0))
       \<and> filter is_backend_step (fst (step env h self args closure mos kwargs)) = []"
  using step_resolved [where env = env and args = args and kwargs = kwargs, OF assms] resolve_decision_trace [OF assms(2)]
  by (simp add: accumulate_path_eq)

text \<open>Window 4 at batch index 1, no decision given: the policy accumulates.\<close>

theorem accumulate_runs_closure_once_witness:
  "fst (step quiet (\<lambda>r. Some plain_trainer) (wrapper (Some 4)) [PyInt 1]
          (PyFunction (UserFunction 3)) None [])
     = [NumTrainingBatchesReached, BlockDdpSyncEnter, ProfileStart ''closure'',
        ClosureCall (UserFunction 3), ProfileStop ''closure'', BlockDdpSyncExit]
   \<and> count_list (fst (step quiet (\<lambda>r. Some plain_trainer) (wrapper (Some 4)) [PyInt 1]
          (PyFunction (UserFunction 3)) None [])) (ClosureCall (UserFunction 3)) = 1
   \<and> filter is_backend_step (fst (step quiet (\<lambda>r. Some plain_trainer) (wrapper (Some 4))
          [PyInt 1] (PyFunction (UserFunction 3)) None [])) = []"
proof -
  have rd: "resolve_decision (\<lambda>r. Some plain_trainer) (wrapper (Some 4)) None
            = ([NumTrainingBatchesReached], Inr False)"
    by (simp add: step_eval)
  from accumulate_runs_closure_once [where env = quiet and args = "[PyInt 1]" and kwargs = "[]",
      OF check_closure_function rd get_trainer_example]
  show ?thesis by simp
qed

text \<open>
  Claim C6. A closure that is neither \<^verbatim>\<open>None\<close> nor a function makes \<^verbatim>\<open>step\<close> raise
  a configuration error with no event at all before it: the closure is not called, the
  training loop is not asked for the decision, no step routine and no \<^verbatim>\<open>zero_grad\<close> is
  invoked. This holds whatever the decision argument and whether or not a trainer is
  attached.
\<close>

theorem step_rejects_non_function:
  assumes "closure \<noteq> PyNone" and "\<forall>f. closure \<noteq> PyFunction f"
  shows "step env h self args closure make_optimizer_step kwargs
         = ([], Inl (MisconfigurationException
                      ''When closure is provided, it should be a function''))"
  using assms by (cases closure) (simp_all add: step_def check_closure_def)

theorem step_rejects_non_function_witness:
  "step quiet (\<lambda>r. Some plain_trainer) (wrapper None) [] (PyInt 5) None []
   = ([], Inl (MisconfigurationException
                ''When closure is provided, it should be a function''))"
  using step_rejects_non_function [of "PyInt 5" quiet "\<lambda>r. Some plain_trainer" "wrapper None"
      "[]" None "[]"]
  by simp

section \<open>The step dispatcher: backend paths\<close>

text \<open>
  Claim C7, as the code has it. When the decision resolves to taking the step (valid
  closure, attached wrapper), and the accelerator module \<^verbatim>\<open>xm\<close> is bound whenever
  \<^verbatim>\<open>on_tpu\<close> is set, exactly one of the three step routines is invoked, chosen with
  fixed precedence: the accelerator's when \<^verbatim>\<open>on_tpu\<close> is set, otherwise the precision
  backend's when there is one, otherwise the optimizer's own. The accelerator's and the
  optimizer's own are invoked inside the profiling span
  \<^verbatim>\<open>optimizer_step_and_closure\<close>; the precision backend's is invoked directly, and
  the wrapper opens no profiling span on that path.
\<close>

theorem one_backend_strategy:
  assumes "check_closure closure = Inr (f, pn)"
    and "resolve_decision h self mos = (tr, Inr True)"
    and "get_trainer h self = Inr t"
    and "on_tpu t \<longrightarrow> TPU_AVAILABLE env"
  shows "filter is_backend_step (fst (step env h self args closure mos kwargs))
           = [if on_tpu t then XmOptimizerStep (optimizer_args f kwargs)
              else if amp_backend t \<noteq> None then PrecisionBackendStep f
              else OptimizerStep f args kwargs]
       \<and> (on_tpu t \<longrightarrow>
            (\<exists>post. fst (step env h self args closure mos kwargs)
               = tr @ [ProfileStart ''optimizer_step_and_closure'',
                       XmOptimizerStep (optimizer_args f kwargs),
                       ProfileStop ''optimizer_step_and_closure''] @ post))
       \<and> (\<not> on_tpu t \<and> amp_backend t \<noteq> None \<longrightarrow>
            (\<exists>post. fst (step env h self args closure mos kwargs)
               = tr @ [PrecisionBackendStep f] @ post)
            \<and> (\<forall>name. ProfileStart name \<notin> set (fst (step env h self args closure mos kwargs))))
       \<and> (\<not> on_tpu t \<and> amp_backend t = None \<longrightarrow>
            (\<exists>post. fst (step env h self args closure mos kwargs)
               = tr @ [ProfileStart ''optimizer_step_and_closure'',
                       OptimizerStep f args kwargs,
                       ProfileStop ''optimizer_step_and_closure''] @ post))"
  using step_resolved [where env = env and args = args and kwargs = kwargs, OF assms(1,2,3)]
    resolve_decision_trace [OF assms(2)] assms(4)
  by (auto simp add: backend_path_trace split: sum.splits)

text \<open>
  Both flags set on a machine with a TPU: the accelerator's routine wins over the
  precision backend's.
\<close>

theorem one_backend_strategy_witness:
  "filter is_backend_step
     (fst (step (quiet\<lparr>TPU_AVAILABLE := True\<rparr>)
             (\<lambda>r. Some (plain_trainer\<lparr>on_tpu := True, amp_backend := Some NATIVE\<rparr>))
             (wrapper (Some 4)) [] (PyFunction (UserFunction 3)) (Some True) []))
   = [XmOptimizerStep [(''closure'', PyFunction (UserFunction 3))]]"
proof -
  have t: "on_tpu (plain_trainer\<lparr>on_tpu := True, amp_backend := Some NATIVE\<rparr>)"
    by simp
  have x: "on_tpu (plain_trainer\<lparr>on_tpu := True, amp_backend := Some NATIVE\<rparr>)
           \<longrightarrow> TPU_AVAILABLE (quiet\<lparr>TPU_AVAILABLE := True\<rparr>)"
    by simp
  from one_backend_strategy [where env = "quiet\<lparr>TPU_AVAILABLE := True\<rparr>" and args = "[]"
      and kwargs = "[]",
      OF check_closure_function resolve_decision_Some get_trainer_example x]
  show ?thesis by (simp add: t optimizer_args_def)
qed

text \<open>
  The claim as stated fails on the precision path: with native mixed precision and no
  TPU, the call consists of the backend's step and \<^verbatim>\<open>zero_grad\<close>, and no profiling
  span is opened.
\<close>

theorem one_backend_strategy_counterexample:
  "step quiet (\<lambda>r. Some (plain_trainer\<lparr>amp_backend := Some NATIVE\<rparr>)) (wrapper None) []
      (PyFunction (UserFunction 3)) (Some True) []
     = ([PrecisionBackendStep (UserFunction 3), ZeroGrad], Inr ())
   \<and> (\<forall>name. ProfileStart name \<notin> set (fst
        (step quiet (\<lambda>r. Some (plain_trainer\<lparr>amp_backend := Some NATIVE\<rparr>)) (wrapper None) []
          (PyFunction (UserFunction 3)) (Some True) [])))"
  by (simp add: step_eval)

text \<open>
  Claim C8, evaluated on the code. With positional argument \<open>1\<close> and keyword argument
  \<open>x = 2\<close>: on the precision path neither reaches the backend's step; on the accelerator
  path (with \<^verbatim>\<open>xm\<close> bound) the keyword argument does and the positional one does not; on the default path
  both reach the optimizer's step.
\<close>

theorem args_kwargs_forwarding:
  "step quiet (\<lambda>r. Some (plain_trainer\<lparr>amp_backend := Some NATIVE\<rparr>)) (wrapper None)
      [PyInt 1] (PyFunction (UserFunction 3)) (Some True) [(''x'', PyInt 2)]
     = ([PrecisionBackendStep (UserFunction 3), ZeroGrad], Inr ())
   \<and> step (quiet\<lparr>TPU_AVAILABLE := True\<rparr>)
      (\<lambda>r. Some (plain_trainer\<lparr>on_tpu := True\<rparr>)) (wrapper None)
      [PyInt 1] (PyFunction (UserFunction 3)) (Some True) [(''x'', PyInt 2)]
     = ([ProfileStart ''optimizer_step_and_closure'',
         XmOptimizerStep [(''closure'', PyFunction (UserFunction 3)), (''x'', PyInt 2)],
         ProfileStop ''optimizer_step_and_closure'', ZeroGrad], Inr ())
   \<and> step quiet (\<lambda>r. Some plain_trainer) (wrapper None)
      [PyInt 1] (PyFunction (UserFunction 3)) (Some True) [(''x'', PyInt 2)]
     = ([ProfileStart ''optimizer_step_and_closure'',
         OptimizerStep (UserFunction 3) [PyInt 1] [(''x'', PyInt 2)],
         ProfileStop ''optimizer_step_and_closure'', ZeroGrad], Inr ())"
  by (simp add: step_eval)

text \<open>
  Claim C10. When the step is taken through the accelerator's or the optimizer's own
  routine, the profiling span is named \<^verbatim>\<open>optimizer_step_and_closure\<close> also when no
  closure is supplied: the name \<^verbatim>\<open>optimizer_step\<close> is bound to \<^verbatim>\<open>profile_name\<close>,
  the call without a closure is the call with \<^verbatim>\<open>do_nothing_closure\<close>, the span it
  opens and closes is \<^verbatim>\<open>optimizer_step_and_closure\<close>, and no span named
  \<^verbatim>\<open>optimizer_step\<close> is opened. When \<^verbatim>\<open>xm\<close> is bound whenever \<^verbatim>\<open>on_tpu\<close> is
  set, exactly one event lies inside the span.
\<close>

theorem span_name_fixed:
  assumes "resolve_decision h self mos = (tr, Inr True)"
    and "get_trainer h self = Inr t"
    and "on_tpu t \<or> amp_backend t = None"
  shows "check_closure PyNone = Inr (do_nothing_closure, Some ''optimizer_step'')
       \<and> step env h self args PyNone mos kwargs
           = step env h self args (PyFunction do_nothing_closure) mos kwargs
       \<and> (\<exists>inside post. fst (step env h self args PyNone mos kwargs)
             = tr @ [ProfileStart ''optimizer_step_and_closure''] @ inside
                  @ [ProfileStop ''optimizer_step_and_closure''] @ post
             \<and> length inside \<le> 1)
       \<and> ((on_tpu t \<longrightarrow> TPU_AVAILABLE env) \<longrightarrow>
            (\<exists>ev post. fst (step env h self args PyNone mos kwargs)
               = tr @ [ProfileStart ''optimizer_step_and_closure'', ev,
                       ProfileStop ''optimizer_step_and_closure''] @ post))
       \<and> ProfileStart ''optimizer_step'' \<notin> set (fst (step env h self args PyNone mos kwargs))"
proof -
  note s = step_resolved [where env = env and args = args and kwargs = kwargs,
      OF check_closure_None assms(1,2)]
  note s' = step_resolved [where env = env and args = args and kwargs = kwargs,
      OF check_closure_function assms(1,2)]
  have tr: "tr = (if mos = None then [NumTrainingBatchesReached] else [])"
    by (rule resolve_decision_trace [OF assms(1)])
  have a: "step env h self args PyNone mos kwargs
           = step env h self args (PyFunction do_nothing_closure) mos kwargs"
    by (simp add: s s')
  have b: "\<exists>inside post. fst (step env h self args PyNone mos kwargs)
             = tr @ [ProfileStart ''optimizer_step_and_closure''] @ inside
                  @ [ProfileStop ''optimizer_step_and_closure''] @ post
             \<and> length inside \<le> 1"
  proof (cases "on_tpu t \<and> \<not> TPU_AVAILABLE env")
    case True
    then have "fst (step env h self args PyNone mos kwargs)
             = tr @ [ProfileStart ''optimizer_step_and_closure''] @ []
                  @ [ProfileStop ''optimizer_step_and_closure''] @ []
               \<and> length ([] :: event list) \<le> 1"
      by (simp add: s backend_path_def eff_defs)
    then show ?thesis by blast
  next
    case False
    have "\<exists>ev. fst (backend_path env t ''optimizer_step_and_closure''
                         do_nothing_closure args kwargs)
             = [ProfileStart ''optimizer_step_and_closure'', ev,
                ProfileStop ''optimizer_step_and_closure'']"
      using assms(3) False by (cases "on_tpu t") (simp_all add: backend_path_trace)
    then obtain ev where "fst (backend_path env t ''optimizer_step_and_closure''
                                 do_nothing_closure args kwargs)
             = [ProfileStart ''optimizer_step_and_closure'', ev,
                ProfileStop ''optimizer_step_and_closure'']"
      by blast
    then have "\<exists>post. fst (step env h self args PyNone mos kwargs)
             = tr @ [ProfileStart ''optimizer_step_and_closure''] @ [ev]
                  @ [ProfileStop ''optimizer_step_and_closure''] @ post
               \<and> length [ev] \<le> 1"
      by (simp add: s)
    then show ?thesis by blast
  qed
  have c: "\<exists>ev post. fst (step env h self args PyNone mos kwargs)
               = tr @ [ProfileStart ''optimizer_step_and_closure'', ev,
                       ProfileStop ''optimizer_step_and_closure''] @ post"
    if "on_tpu t \<longrightarrow> TPU_AVAILABLE env"
    using assms(3) that by (auto simp add: s backend_path_trace split: sum.splits)
  have d: "ProfileStart ''optimizer_step''
             \<notin> set (fst (step env h self args PyNone mos kwargs))"
    by (auto simp add: s tr backend_path_trace split: sum.splits)
  from check_closure_None a b c d show ?thesis by blast
qed

text \<open>Window 2 at batch index 1: the policy takes the step, and no closure is given.\<close>

theorem span_name_fixed_witness:
  "step quiet (\<lambda>r. Some plain_trainer) (wrapper (Some 2)) [] PyNone None []
     = step quiet (\<lambda>r. Some plain_trainer) (wrapper (Some 2)) []
         (PyFunction do_nothing_closure) None []
   \<and> ProfileStart ''optimizer_step''
       \<notin> set (fst (step quiet (\<lambda>r. Some plain_trainer) (wrapper (Some 2)) [] PyNone None []))
   \<and> fst (step quiet (\<lambda>r. Some plain_trainer) (wrapper (Some 2)) [] PyNone None [])
     = [NumTrainingBatchesReached, ProfileStart ''optimizer_step_and_closure'',
        OptimizerStep do_nothing_closure [] [], ProfileStop ''optimizer_step_and_closure'',
        ZeroGrad]"
proof -
  have rd: "resolve_decision (\<lambda>r. Some plain_trainer) (wrapper (Some 2)) None
            = ([NumTrainingBatchesReached], Inr True)"
    by (simp add: step_eval)
  have t: "on_tpu plain_trainer \<or> amp_backend plain_trainer = None"
    by (simp add: plain_trainer_def)
  have e: "fst (step quiet (\<lambda>r. Some plain_trainer) (wrapper (Some 2)) [] PyNone None [])
     = [NumTrainingBatchesReached, ProfileStart ''optimizer_step_and_closure'',
        OptimizerStep do_nothing_closure [] [], ProfileStop ''optimizer_step_and_closure'',
        ZeroGrad]"
    by (simp add: step_eval)
  from span_name_fixed [where env = quiet and args = "[]" and kwargs = "[]",
      OF rd get_trainer_example t] e
  show ?thesis by simp
qed

section \<open>The string representation: the loops against the specification's words\<close>

lemma join_concat:
  "xs \<noteq> [] \<Longrightarrow> concat (map (\<lambda>x. x @ sep) xs) = join sep xs @ sep"
  by (induction sep xs rule: join.induct) simp_all

text \<open>Cutting the length of one separator off the end leaves the joined items.\<close>

lemma drop_separator:
  "take (length (concat (map (\<lambda>x. x @ sep) xs)) - length sep) (concat (map (\<lambda>x. x @ sep) xs))
   = join sep xs"
proof (cases "xs = []")
  case True
  then show ?thesis by simp
next
  case False
  then show ?thesis by (simp add: join_concat)
qed

lemma format_rounded_numeric:
  "is_numeric v \<Longrightarrow> format_rounded bi v = Inr (numeric_12 bi v)"
  by (cases v) (simp_all add: format_rounded_def)

lemma repr_params_acc:
  assumes "\<forall>k \<in> set keys. k \<noteq> ''params'' \<longrightarrow> (\<exists>v. map_of g k = Some v \<and> is_numeric v)"
  shows "repr_params bi g keys acc
         = Inr (acc @ concat (map (\<lambda>x. x @ '', '')
                  (map (\<lambda>k. k @ ''='' @ (case map_of g k of Some v \<Rightarrow> numeric_12 bi v | None \<Rightarrow> []))
                     (filter (\<lambda>k. k \<noteq> ''params'') keys))))"
  using assms
proof (induction keys arbitrary: acc)
  case Nil
  then show ?case by simp
next
  case (Cons key keys)
  show ?case
  proof (cases "key = ''params''")
    case True
    then show ?thesis using Cons by simp
  next
    case False
    then obtain v where v: "map_of g key = Some v" "is_numeric v"
      using Cons.prems by auto
    have "\<forall>k\<in>set keys. k \<noteq> ''params'' \<longrightarrow> (\<exists>v. map_of g k = Some v \<and> is_numeric v)"
      using Cons.prems by simp
    from Cons.IH [OF this] show ?thesis
      using False v by (simp add: format_rounded_numeric)
  qed
qed

lemma numeric_group_keys:
  assumes "list_all (\<lambda>kv. fst kv = ''params'' \<or> is_numeric (snd kv)) g"
  shows "\<forall>k \<in> set (sort (map fst g)). k \<noteq> ''params'' \<longrightarrow> (\<exists>v. map_of g k = Some v \<and> is_numeric v)"
proof (intro ballI impI)
  fix k assume k: "k \<in> set (sort (map fst g))" "k \<noteq> ''params''"
  then have "k \<in> fst ` set g" by simp
  then obtain v where v: "map_of g k = Some v"
    by (metis weak_map_of_SomeI map_of_eq_None_iff not_Some_eq)
  then have "(k, v) \<in> set g" by (rule map_of_SomeD)
  with assms k(2) have "is_numeric v" by (auto simp: list_all_iff)
  with v show "\<exists>v. map_of g k = Some v \<and> is_numeric v" by blast
qed

lemma repr_group:
  assumes "list_all (\<lambda>kv. fst kv = ''params'' \<or> is_numeric (snd kv)) g"
  shows "\<exists>params. repr_params bi g (sort (map fst g)) [] = Inr params
           \<and> ''('' @ take (length params - 2) params @ '')'' = group_listing bi g"
proof -
  define items where "items =
    map (\<lambda>k. k @ ''='' @ (case map_of g k of Some v \<Rightarrow> numeric_12 bi v | None \<Rightarrow> []))
      (filter (\<lambda>k. k \<noteq> ''params'') (sort (map fst g)))"
  have p: "repr_params bi g (sort (map fst g)) [] = Inr (concat (map (\<lambda>x. x @ '', '') items))"
    unfolding items_def
    by (simp add: repr_params_acc [OF numeric_group_keys [OF assms]] del: map_map)
  have "take (length (concat (map (\<lambda>x. x @ '', '') items)) - 2)
          (concat (map (\<lambda>x. x @ '', '') items)) = join '', '' items"
    using drop_separator [of "'', ''" items] by (simp add: numeral_2_eq_2)
  then have "''('' @ take (length (concat (map (\<lambda>x. x @ '', '') items)) - 2)
          (concat (map (\<lambda>x. x @ '', '') items)) @ '')'' = group_listing bi g"
    by (simp add: group_listing_def items_def)
  with p show ?thesis by blast
qed

lemma repr_groups_acc:
  assumes "numeric_groups gs"
  shows "repr_groups bi (map PyDict gs) acc
         = Inr (acc @ concat (map (\<lambda>x. x @ '','') (map (group_listing bi) gs)))"
  using assms
proof (induction gs arbitrary: acc)
  case Nil
  then show ?case by simp
next
  case (Cons g gs)
  then have g: "list_all (\<lambda>kv. fst kv = ''params'' \<or> is_numeric (snd kv)) g"
    and gs: "numeric_groups gs"
    by (simp_all add: numeric_groups_def)
  obtain params where p: "repr_params bi g (sort (map fst g)) [] = Inr params"
    "''('' @ take (length params - 2) params @ '')'' = group_listing bi g"
    using repr_group [OF g] by blast
  have "''('' @ take (length params - 2) params @ ''),'' = group_listing bi g @ '',''"
    using p(2) by (metis append.assoc append_Cons append_Nil)
  then show ?case
    using Cons.IH [OF gs] p(1) by (simp del: map_map)
qed

text \<open>
  Claim C9. For a wrapper whose mirrored \<^verbatim>\<open>param_groups\<close> is a list of dictionaries
  \<open>gs\<close> in which every value under a key other than \<^verbatim>\<open>params\<close> is numeric, the
  representation names the wrapped optimizer's class and lists the groups in order,
  separated by commas and enclosed in brackets; each group lists, between parentheses and
  separated by a comma and a space, its keys other than \<^verbatim>\<open>params\<close> in sorted order,
  each as \<^verbatim>\<open>key=value\<close> with the value rounded to 12 digits. (With no group at all
  the opening bracket is missing.)
\<close>

theorem repr_lists_groups:
  assumes "map_of (self_dict self) ''param_groups'' = Some (PyList (map PyDict gs))"
    and "numeric_groups gs"
  shows "repr bi self
         = Inr (''LightningOptimizer(optim='' @ class_name (self_optimizer self)
                @ '', groups=''
                @ (if gs = [] then '']''
                   else ''['' @ join '','' (map (group_listing bi) gs) @ '']'')
                @ '')'')"
proof (cases "gs = []")
  case True
  then show ?thesis
    using assms by (simp add: repr_def iter_items_def)
next
  case False
  have "concat (map (\<lambda>x. x @ '','') (map (group_listing bi) gs))
             = join '','' (map (group_listing bi) gs) @ '',''"
    by (rule join_concat) (use False in simp)
  then show ?thesis
    using assms(1) False
    by (simp add: repr_def iter_items_def repr_groups_acc [OF assms(2)] butlast_append
        del: map_map)
qed

text \<open>The SGD optimizer of the examples, and an optimizer with two groups.\<close>

theorem repr_lists_groups_witness:
  "repr printer (wrapper None)
   = Inr ''LightningOptimizer(optim=SGD, groups=[(dampening=0, lr=0.1, momentum=0, nesterov=0, weight_decay=0)])''
   \<and> repr printer ((wrapper None)\<lparr>self_dict :=
         [(''param_groups'', PyList [PyDict [(''params'', PyList []), (''lr'', PyInt 2)],
                                     PyDict [(''lr'', PyInt (-1)), (''eps'', PyInt 10)]])]\<rparr>)
   = Inr ''LightningOptimizer(optim=SGD, groups=[(lr=2),(eps=10, lr=-1)])''"
proof -
  have 1: "repr printer (wrapper None)
   = Inr ''LightningOptimizer(optim=SGD, groups=[(dampening=0, lr=0.1, momentum=0, nesterov=0, weight_decay=0)])''"
    using repr_lists_groups [of "wrapper None"
      "[[(''params'', PyList [PyObject 7]), (''lr'', PyFloat 0x3FB999999999999A),
         (''momentum'', PyInt 0), (''dampening'', PyInt 0), (''weight_decay'', PyInt 0),
         (''nesterov'', PyBool False)]]" printer]
    by (simp add: wrapper_def sgd_def numeric_groups_def group_listing_def str_int_def
        digits_of_nat.simps printer_def)
  have 2: "repr printer ((wrapper None)\<lparr>self_dict :=
         [(''param_groups'', PyList [PyDict [(''params'', PyList []), (''lr'', PyInt 2)],
                                     PyDict [(''lr'', PyInt (-1)), (''eps'', PyInt 10)]])]\<rparr>)
   = Inr ''LightningOptimizer(optim=SGD, groups=[(lr=2),(eps=10, lr=-1)])''"
    using repr_lists_groups [of "(wrapper None)\<lparr>self_dict :=
         [(''param_groups'', PyList [PyDict [(''params'', PyList []), (''lr'', PyInt 2)],
                                     PyDict [(''lr'', PyInt (-1)), (''eps'', PyInt 10)]])]\<rparr>"
      "[[(''params'', PyList []), (''lr'', PyInt 2)], [(''lr'', PyInt (-1)), (''eps'', PyInt 10)]]"
      printer]
    by (simp add: wrapper_def sgd_def numeric_groups_def group_listing_def str_int_def
        digits_of_nat.simps printer_def)
  from 1 2 show ?thesis by blast
qed

end
